theory Spec2Isabelle
  imports Complex_Main "HOL-Library.AList" "HOL-Library.Sublist"
begin

section \<open>Python values and the inventory mapping\<close>

text \<open>
  The functions of \<^verbatim>\<open>inventory_system.py\<close> check the run-time type of their arguments
  with \<^verbatim>\<open>isinstance\<close>, so an argument is a dynamically typed Python value. A finite
  float is given by its exact value, a rational number; \<open>VOther\<close> stands for every
  other object (a list, a dict, ...).
\<close>

datatype pyfloat = Finite rat | NaN | Infinity | NegInfinity

datatype pyval = VNone | VBool bool | VInt int | VFloat pyfloat | VStr string | VOther

text \<open>\<^verbatim>\<open>isinstance(x, str)\<close>.\<close>

fun isinstance_str :: "pyval \<Rightarrow> bool" where
  "isinstance_str (VStr _) = True"
| "isinstance_str _ = False"

text \<open>
  \<^verbatim>\<open>isinstance(x, int)\<close>. In Python \<^verbatim>\<open>bool\<close> is a subclass of \<^verbatim>\<open>int\<close>, so
  \<^verbatim>\<open>True\<close> and \<^verbatim>\<open>False\<close> pass the check and count as 1 and 0 in arithmetic.
\<close>

fun isinstance_int :: "pyval \<Rightarrow> bool" where
  "isinstance_int (VInt _) = True"
| "isinstance_int (VBool _) = True"
| "isinstance_int _ = False"

fun int_value :: "pyval \<Rightarrow> int" where
  "int_value (VInt i) = i"
| "int_value (VBool b) = (if b then 1 else 0)"
| "int_value _ = 0"

fun str_value :: "pyval \<Rightarrow> string" where
  "str_value (VStr s) = s"
| "str_value _ = []"

text \<open>
  \<^verbatim>\<open>stock_data: Dict[str, int]\<close> is a Python dict, which iterates in insertion order:
  an association list. \<^verbatim>\<open>d[k] = v\<close> overwrites the value of a present key where it
  stands and appends an absent key at the end (\<^const>\<open>AList.update\<close>), \<^verbatim>\<open>del d[k]\<close>
  drops the entry (\<^const>\<open>AList.delete\<close>), \<^verbatim>\<open>d.get(k, 0)\<close> is \<open>dict_get\<close>.
\<close>

type_synonym stock = "(string \<times> int) list"

definition dict_get :: "stock \<Rightarrow> string \<Rightarrow> int \<Rightarrow> int" where
  "dict_get d k dflt = (case map_of d k of None \<Rightarrow> dflt | Some v \<Rightarrow> v)"

section \<open>The operations on the mapping\<close>

text \<open>
  Each operation takes the global \<^verbatim>\<open>stock_data\<close> and returns what it is afterwards.
  The calls to \<^verbatim>\<open>logging\<close> and the entry appended to the caller's \<^verbatim>\<open>logs\<close> list
  write text only and are left out.
\<close>

definition add_item :: "stock \<Rightarrow> pyval \<Rightarrow> pyval \<Rightarrow> stock" where
  "add_item stock_data item qty =
     (if \<not> isinstance_str item then stock_data
      else if \<not> isinstance_int qty then stock_data
      else AList.update (str_value item)
             (dict_get stock_data (str_value item) 0 + int_value qty) stock_data)"

definition remove_item :: "stock \<Rightarrow> pyval \<Rightarrow> pyval \<Rightarrow> stock" where
  "remove_item stock_data item qty =
     (if \<not> isinstance_str item then stock_data
      else if \<not> isinstance_int qty then stock_data
      else (case map_of stock_data (str_value item) of
              None \<Rightarrow> stock_data
            | Some cur \<Rightarrow>
                (let stock_data' = AList.update (str_value item) (cur - int_value qty) stock_data
                 in if dict_get stock_data' (str_value item) 0 \<le> 0
                    then AList.delete (str_value item) stock_data'
                    else stock_data')))"

definition get_qty :: "stock \<Rightarrow> pyval \<Rightarrow> int" where
  "get_qty stock_data item =
     (if \<not> isinstance_str item then 0 else dict_get stock_data (str_value item) 0)"

definition check_low_items :: "stock \<Rightarrow> pyval \<Rightarrow> string list" where
  "check_low_items stock_data threshold =
     (if \<not> isinstance_int threshold then []
      else map fst (filter (\<lambda>(item, qty). qty < int_value threshold) stock_data))"

text \<open>A call of one of the four operations, and what the caller gets back.\<close>

datatype call =
    AddItem pyval pyval
  | RemoveItem pyval pyval
  | GetQty pyval
  | CheckLowItems pyval

datatype result = RNone | RInt int | RList "string list"

fun step :: "stock \<Rightarrow> call \<Rightarrow> stock \<times> result" where
  "step s (AddItem item qty) = (add_item s item qty, RNone)"
| "step s (RemoveItem item qty) = (remove_item s item qty, RNone)"
| "step s (GetQty item) = (s, RInt (get_qty s item))"
| "step s (CheckLowItems threshold) = (s, RList (check_low_items s threshold))"

fun run :: "stock \<Rightarrow> call list \<Rightarrow> stock" where
  "run s [] = s"
| "run s (c # cs) = run (fst (step s c)) cs"

text \<open>The first five calls of \<^verbatim>\<open>main\<close>, from the empty mapping of program start.\<close>

definition main_calls :: "call list" where
  "main_calls =
     [AddItem (VStr ''apple'') (VInt 10),
      AddItem (VStr ''banana'') (VInt 2),
      AddItem (VStr ''pear'') (VInt 0),
      RemoveItem (VStr ''apple'') (VInt 3),
      RemoveItem (VStr ''orange'') (VInt 1)]"

definition main_stock :: stock where
  "main_stock = run [] main_calls"

section \<open>Files and JSON\<close>

text \<open>
  \<^verbatim>\<open>save_data\<close> and \<^verbatim>\<open>load_data\<close> go through the \<^verbatim>\<open>json\<close> module. Its text
  format is the library's business; a file is modelled by the JSON document it holds,
  or as \<open>Malformed\<close> when \<^verbatim>\<open>json.load\<close> rejects its bytes (\<^verbatim>\<open>JSONDecodeError\<close> and
  \<^verbatim>\<open>UnicodeDecodeError\<close>, both subclasses of \<^verbatim>\<open>ValueError\<close>). An object keeps its
  members as written, duplicates included. \<^verbatim>\<open>json.load\<close> accepts \<^verbatim>\<open>NaN\<close>,
  \<^verbatim>\<open>Infinity\<close> and \<^verbatim>\<open>-Infinity\<close>.
\<close>

datatype json =
    JNull
  | JBool bool
  | JInt int
  | JFloat pyfloat
  | JString string
  | JArray "json list"
  | JObject "(string \<times> json) list"

datatype fcontent = Malformed | Doc json

datatype error = ValueError | TypeError | OverflowError | OSError

text \<open>
  The process state: the global mapping and the file system. \<open>files\<close> gives the
  content of each existing file; \<open>locked name\<close> says that \<^verbatim>\<open>open\<close> fails on \<open>name\<close>
  with an \<^verbatim>\<open>OSError\<close> other than \<^verbatim>\<open>FileNotFoundError\<close> (no permission, a directory, ...).
\<close>

record world =
  stock_data :: stock
  files :: "string \<Rightarrow> fcontent option"
  locked :: "string \<Rightarrow> bool"

subsection \<open>\<^verbatim>\<open>int(v)\<close> on a loaded value\<close>

definition is_space :: "char \<Rightarrow> bool" where
  "is_space c = (let n = (of_char c :: nat) in (9 \<le> n \<and> n \<le> 13) \<or> (28 \<le> n \<and> n \<le> 32))"

definition is_digit :: "char \<Rightarrow> bool" where
  "is_digit c = (let n = (of_char c :: nat) in 48 \<le> n \<and> n \<le> 57)"

definition digit_val :: "char \<Rightarrow> int" where
  "digit_val c = int (of_char c) - 48"

definition strip :: "string \<Rightarrow> string" where
  "strip s = rev (dropWhile is_space (rev (dropWhile is_space s)))"

text \<open>Decimal digits after the first one; a single underscore may stand between two digits.\<close>

fun digits :: "int \<Rightarrow> string \<Rightarrow> int option" where
  "digits acc [] = Some acc"
| "digits acc (c # cs) =
     (if is_digit c then digits (10 * acc + digit_val c) cs
      else if c = CHR ''_'' then
        (case cs of
           [] \<Rightarrow> None
         | d # ds \<Rightarrow> if is_digit d then digits (10 * acc + digit_val d) ds else None)
      else None)"

definition unsigned :: "string \<Rightarrow> int option" where
  "unsigned s = (case s of [] \<Rightarrow> None
                 | d # ds \<Rightarrow> if is_digit d then digits (digit_val d) ds else None)"

text \<open>
  \<^verbatim>\<open>int(s)\<close> for a string of ASCII characters: surrounding whitespace is dropped, one
  sign is allowed, the rest is decimal. \<open>None\<close> is \<^verbatim>\<open>ValueError\<close>.
\<close>

definition int_of_str :: "string \<Rightarrow> int option" where
  "int_of_str s =
     (case strip s of
        [] \<Rightarrow> None
      | c # cs \<Rightarrow>
          if c = CHR ''-'' then map_option uminus (unsigned cs)
          else if c = CHR ''+'' then unsigned cs
          else unsigned (c # cs))"

text \<open>\<^verbatim>\<open>int(x)\<close> for a float truncates towards zero.\<close>

definition trunc :: "rat \<Rightarrow> int" where
  "trunc r = (if 0 \<le> r then \<lfloor>r\<rfloor> else \<lceil>r\<rceil>)"

fun py_int :: "json \<Rightarrow> error + int" where
  "py_int JNull = Inl TypeError"
| "py_int (JBool b) = Inr (if b then 1 else 0)"
| "py_int (JInt i) = Inr i"
| "py_int (JFloat (Finite r)) = Inr (trunc r)"
| "py_int (JFloat NaN) = Inl ValueError"
| "py_int (JFloat Infinity) = Inl OverflowError"
| "py_int (JFloat NegInfinity) = Inl OverflowError"
| "py_int (JString s) = (case int_of_str s of None \<Rightarrow> Inl ValueError | Some i \<Rightarrow> Inr i)"
| "py_int (JArray _) = Inl TypeError"
| "py_int (JObject _) = Inl TypeError"

subsection \<open>\<^verbatim>\<open>load_data\<close> and \<^verbatim>\<open>save_data\<close>\<close>

text \<open>
  \<^verbatim>\<open>json.load\<close> turns an object into a dict, member by member: a repeated key keeps
  its first position and its last value.
\<close>

definition dict_of_members :: "(string \<times> json) list \<Rightarrow> (string \<times> json) list" where
  "dict_of_members ms = foldl (\<lambda>d (k, v). AList.update k v d) [] ms"

text \<open>
  \<^verbatim>\<open>{str(k): int(v) for k, v in data.items()}\<close>: the entries in order, into the dict
  built so far; the first \<^verbatim>\<open>int(v)\<close> that raises ends the comprehension. The keys of
  a loaded object are strings, which \<^verbatim>\<open>str\<close> returns as they are.
\<close>

fun comprehension :: "stock \<Rightarrow> (string \<times> json) list \<Rightarrow> error + stock" where
  "comprehension acc [] = Inr acc"
| "comprehension acc ((k, v) # items) =
     (case py_int v of
        Inl e \<Rightarrow> Inl e
      | Inr i \<Rightarrow> comprehension (AList.update k i acc) items)"

text \<open>
  \<^verbatim>\<open>load_data\<close> returns the loaded mapping or lets an exception through (\<open>Inl\<close>); the
  handlers catch \<^verbatim>\<open>FileNotFoundError\<close> and \<^verbatim>\<open>ValueError\<close> only. The second component
  is the process state afterwards.
\<close>

definition load_data :: "world \<Rightarrow> string \<Rightarrow> (error + stock) \<times> world" where
  "load_data w file_name =
     (case files w file_name of
        None \<Rightarrow> (Inr [], w)
      | Some content \<Rightarrow>
          if locked w file_name then (Inl OSError, w)
          else (case content of
                  Malformed \<Rightarrow> (Inr [], w)
                | Doc (JObject ms) \<Rightarrow>
                    (case comprehension [] (dict_of_members ms) of
                       Inl ValueError \<Rightarrow> (Inr [], w)
                     | Inl e \<Rightarrow> (Inl e, w)
                     | Inr d \<Rightarrow> (Inr d, w))
                | Doc _ \<Rightarrow> (Inr [], w)))"

text \<open>\<^verbatim>\<open>json.dump(stock_data, file, indent=2)\<close>: an object with one integer member per entry.\<close>

definition json_dump :: "stock \<Rightarrow> json" where
  "json_dump d = JObject (map (\<lambda>(k, v). (k, JInt v)) d)"

text \<open>An \<^verbatim>\<open>OSError\<close> of \<^verbatim>\<open>open\<close> is caught and logged: nothing is written.\<close>

definition save_data :: "world \<Rightarrow> string \<Rightarrow> world" where
  "save_data w file_name =
     (if locked w file_name then w
      else w\<lparr>files := (files w)(file_name \<mapsto> Doc (json_dump (stock_data w)))\<rparr>)"

section \<open>Predicates of the statements\<close>

text \<open>Every stored quantity is greater than 0.\<close>

definition positive_stock :: "stock \<Rightarrow> bool" where
  "positive_stock s = list_all (\<lambda>(item, qty). 0 < qty) s"

text \<open>A call that is not an \<^verbatim>\<open>add_item\<close> taking effect with a quantity of 0 or less.\<close>

fun add_positive :: "call \<Rightarrow> bool" where
  "add_positive (AddItem item qty) =
     (if isinstance_str item \<and> isinstance_int qty then 0 < int_value qty else True)"
| "add_positive _ = True"

text \<open>A concrete process state for the file operations.\<close>

definition demo_world :: world where
  "demo_world =
     \<lparr>stock_data = [(''apple'', 7), (''banana'', 2), (''pear'', 0)],
      files = [''list.json'' \<mapsto> Doc (JArray [JInt 1, JInt 2]),
               ''bad.json'' \<mapsto> Malformed,
               ''null.json'' \<mapsto> Doc (JObject [(''apple'', JInt 7), (''pear'', JNull)])],
      locked = (\<lambda>name. name = ''locked.json'')\<rparr>"

section \<open>Facts about dicts as association lists\<close>

lemma set_update_subset: "set (AList.update k v s) \<subseteq> insert (k, v) (set s)"
  by (induction s) auto

lemma set_delete_subset: "set (AList.delete k s) \<subseteq> set s"
  by (auto simp: AList.delete_eq)

lemma update_append_new: "k \<notin> fst ` set acc \<Longrightarrow> AList.update k v acc = acc @ [(k, v)]"
  by (induction acc) auto

lemma dict_get_update: "dict_get (AList.update k v s) k d = v"
  by (simp add: dict_get_def update_conv')

lemma in_filterD: "x \<in> set (filter P xs) \<Longrightarrow> P x"
  by simp

lemma filter_lookup:
  "distinct (map fst s) \<Longrightarrow>
   map fst (filter (\<lambda>(k, v). P v) s) = filter (\<lambda>k. \<exists>v. map_of s k = Some v \<and> P v) (map fst s)"
proof (induction s)
  case Nil
  then show ?case by simp
next
  case (Cons a s)
  obtain k v where a: "a = (k, v)" by (cases a)
  from Cons.prems a have notin: "k \<notin> fst ` set s" and d: "distinct (map fst s)" by auto
  have "filter (\<lambda>k'. \<exists>v'. map_of (a # s) k' = Some v' \<and> P v') (map fst s) =
        filter (\<lambda>k'. \<exists>v'. map_of s k' = Some v' \<and> P v') (map fst s)"
    using notin a by (intro filter_cong) auto
  with Cons.IH[OF d] a show ?case by simp
qed

text \<open>The keys of a dict are unique, and the four operations keep them so.\<close>

lemma distinct_add_item: "distinct (map fst s) \<Longrightarrow> distinct (map fst (add_item s item qty))"
  by (simp add: add_item_def distinct_update)

lemma distinct_remove_item: "distinct (map fst s) \<Longrightarrow> distinct (map fst (remove_item s item qty))"
  by (simp add: remove_item_def Let_def distinct_update distinct_delete split: option.splits)

lemma distinct_step: "distinct (map fst s) \<Longrightarrow> distinct (map fst (fst (step s c)))"
  by (cases c) (simp_all add: distinct_add_item distinct_remove_item)

lemma distinct_run: "distinct (map fst s) \<Longrightarrow> distinct (map fst (run s cs))"
  by (induction cs arbitrary: s) (simp_all add: distinct_step)

section \<open>The invariant on stored quantities\<close>

lemma positive_stock_iff: "positive_stock s \<longleftrightarrow> (\<forall>(k, v) \<in> set s. 0 < v)"
  by (simp add: positive_stock_def list_all_iff)

lemma positive_update: "positive_stock s \<Longrightarrow> 0 < v \<Longrightarrow> positive_stock (AList.update k v s)"
  using set_update_subset[of k v s] by (auto simp: positive_stock_iff)

lemma positive_delete: "positive_stock s \<Longrightarrow> positive_stock (AList.delete k s)"
  using set_delete_subset[of k s] by (auto simp: positive_stock_iff)

lemma positive_dict_get: "positive_stock s \<Longrightarrow> 0 \<le> dict_get s k 0"
  by (auto simp: positive_stock_iff dict_get_def split: option.splits dest!: map_of_SomeD)

lemma positive_add_item:
  "positive_stock s \<Longrightarrow> add_positive (AddItem item qty) \<Longrightarrow> positive_stock (add_item s item qty)"
  using positive_dict_get[of s "str_value item"]
  by (auto simp: add_item_def intro!: positive_update)

lemma positive_remove_item:
  "positive_stock s \<Longrightarrow> positive_stock (remove_item s item qty)"
  by (auto simp: remove_item_def Let_def dict_get_update delete_update_same
      intro: positive_update positive_delete split: option.splits)

lemma positive_step:
  "positive_stock s \<Longrightarrow> add_positive c \<Longrightarrow> positive_stock (fst (step s c))"
  by (cases c) (simp_all add: positive_add_item positive_remove_item del: add_positive.simps)

text \<open>
  C1, as the code has it. \<^verbatim>\<open>add_item\<close> stores the sum it computes, whatever its sign,
  so the invariant fails after \<^verbatim>\<open>add_item("pear", 0)\<close> on the empty mapping.
\<close>

theorem positive_stock_counterexample:
  "\<not> positive_stock (run [] [AddItem (VStr ''pear'') (VInt 0)])"
  by (simp add: positive_stock_def add_item_def dict_get_def)

text \<open>
  C1, amended: from a mapping whose quantities are all greater than 0 (the empty one of
  program start is such), after any sequence of \<^verbatim>\<open>add_item\<close>, \<^verbatim>\<open>remove_item\<close>,
  \<^verbatim>\<open>get_qty\<close> and \<^verbatim>\<open>check_low_items\<close> calls in which every \<^verbatim>\<open>add_item\<close> that takes
  effect adds a quantity greater than 0, every stored quantity is greater than 0.
\<close>

theorem positive_stock_run:
  "positive_stock s \<Longrightarrow> list_all add_positive cs \<Longrightarrow> positive_stock (run s cs)"
  by (induction cs arbitrary: s) (simp_all add: positive_step)

theorem positive_stock_run_witness:
  "positive_stock [] \<and>
   list_all add_positive
     [AddItem (VStr ''apple'') (VInt 10), AddItem (VStr ''banana'') (VBool True),
      AddItem (VInt 3) (VInt 0), RemoveItem (VStr ''apple'') (VInt 3),
      RemoveItem (VStr ''banana'') (VInt 5), GetQty (VStr ''apple''), CheckLowItems (VInt 5)] \<and>
   positive_stock (run []
     [AddItem (VStr ''apple'') (VInt 10), AddItem (VStr ''banana'') (VBool True),
      AddItem (VInt 3) (VInt 0), RemoveItem (VStr ''apple'') (VInt 3),
      RemoveItem (VStr ''banana'') (VInt 5), GetQty (VStr ''apple''), CheckLowItems (VInt 5)])"
  using positive_stock_run[of "[]"
     "[AddItem (VStr ''apple'') (VInt 10), AddItem (VStr ''banana'') (VBool True),
       AddItem (VInt 3) (VInt 0), RemoveItem (VStr ''apple'') (VInt 3),
       RemoveItem (VStr ''banana'') (VInt 5), GetQty (VStr ''apple''), CheckLowItems (VInt 5)]"]
  by (simp add: positive_stock_def)

section \<open>The scenario of \<^verbatim>\<open>main\<close>\<close>

lemma main_stock_eq: "main_stock = [(''apple'', 7), (''banana'', 2), (''pear'', 0)]"
  by (simp add: main_stock_def main_calls_def add_item_def remove_item_def dict_get_def)

text \<open>
  C2, as stated: the five calls would leave exactly \<^verbatim>\<open>{"apple": 7, "banana": 2}\<close>, with
  \<^verbatim>\<open>check_low_items(5) = ["banana"]\<close>. They do not: \<^verbatim>\<open>"pear"\<close> is stored with 0.
\<close>

theorem main_scenario_counterexample:
  "\<not> (map_of main_stock = map_of [(''apple'', 7), (''banana'', 2)] \<and>
      get_qty main_stock (VStr ''apple'') = 7 \<and>
      check_low_items main_stock (VInt 5) = [''banana''])"
  by (simp add: main_stock_eq check_low_items_def)

text \<open>
  C2, amended: the five calls leave \<^verbatim>\<open>{"apple": 7, "banana": 2, "pear": 0}\<close>, in this
  order; \<^verbatim>\<open>get_qty("apple")\<close> is 7 and \<^verbatim>\<open>check_low_items(5)\<close> is
  \<^verbatim>\<open>["banana", "pear"]\<close>.
\<close>

theorem main_scenario:
  "main_stock = [(''apple'', 7), (''banana'', 2), (''pear'', 0)] \<and>
   get_qty main_stock (VStr ''apple'') = 7 \<and>
   check_low_items main_stock (VInt 5) = [''banana'', ''pear'']"
  by (simp add: main_stock_eq get_qty_def check_low_items_def dict_get_def)

section \<open>\<^verbatim>\<open>remove_item\<close>\<close>

text \<open>
  C4: with a text item and an integer quantity, \<^verbatim>\<open>remove_item\<close> leaves the mapping as
  it is when the item is absent; otherwise the stored quantity \<open>cur\<close> becomes
  \<open>cur - qty\<close>: at 0 or below the entry is deleted, and the other entries stay; above 0
  the entry holds the new value in its place. So \<open>cur \<le> qty\<close> leaves the item absent.
\<close>

theorem remove_item_cases:
  assumes "isinstance_int qty"
  shows "(map_of s name = None \<longrightarrow> remove_item s (VStr name) qty = s) \<and>
         (\<forall>cur. map_of s name = Some cur \<longrightarrow>
            (cur - int_value qty \<le> 0 \<longrightarrow>
               remove_item s (VStr name) qty = AList.delete name s \<and>
               map_of (remove_item s (VStr name) qty) = (map_of s)(name := None)) \<and>
            (0 < cur - int_value qty \<longrightarrow>
               remove_item s (VStr name) qty = AList.update name (cur - int_value qty) s \<and>
               map_of (remove_item s (VStr name) qty) = (map_of s)(name \<mapsto> cur - int_value qty)) \<and>
            (cur \<le> int_value qty \<longrightarrow> name \<notin> fst ` set (remove_item s (VStr name) qty)))"
  using assms
  by (auto simp: remove_item_def Let_def dict_get_update delete_update_same delete_conv'
      update_conv' delete_notin_dom)

theorem remove_item_cases_witness:
  "isinstance_int (VInt 3) \<and> isinstance_int (VInt 12) \<and>
   map_of [(''apple'', 10), (''pear'', 2)] ''orange'' = None \<and>
   remove_item [(''apple'', 10), (''pear'', 2)] (VStr ''orange'') (VInt 3) =
     [(''apple'', 10), (''pear'', 2)] \<and>
   map_of [(''apple'', 10), (''pear'', 2)] ''apple'' = Some 10 \<and>
   remove_item [(''apple'', 10), (''pear'', 2)] (VStr ''apple'') (VInt 3) =
     [(''apple'', 7), (''pear'', 2)] \<and>
   remove_item [(''apple'', 10), (''pear'', 2)] (VStr ''apple'') (VInt 12) = [(''pear'', 2)] \<and>
   ''apple'' \<notin> fst ` set (remove_item [(''apple'', 10), (''pear'', 2)] (VStr ''apple'') (VInt 12))"
  using remove_item_cases[of "VInt 3" "[(''apple'', 10), (''pear'', 2)]" "''orange''"]
    remove_item_cases[of "VInt 3" "[(''apple'', 10), (''pear'', 2)]" "''apple''"]
    remove_item_cases[of "VInt 12" "[(''apple'', 10), (''pear'', 2)]" "''apple''"]
  by simp

section \<open>\<^verbatim>\<open>add_item\<close>\<close>

lemma get_qty_add_item:
  "isinstance_int qty \<Longrightarrow>
   get_qty (add_item s (VStr name) qty) (VStr name) = get_qty s (VStr name) + int_value qty"
  by (simp add: get_qty_def add_item_def dict_get_update)

lemma get_qty_adds:
  "list_all isinstance_int qtys \<Longrightarrow>
   get_qty (run s (map (AddItem (VStr name)) qtys)) (VStr name) =
     get_qty s (VStr name) + sum_list (map int_value qtys)"
  by (induction qtys arbitrary: s) (simp_all add: get_qty_add_item)

lemma keys_add_item: "set (map fst s) \<subseteq> set (map fst (add_item s item qty))"
  using dom_update[of "str_value item" _ s] by (auto simp: add_item_def)

text \<open>
  C5: with a text item and an integer quantity, \<^verbatim>\<open>add_item\<close> sets the entry of the item
  to its stored value, 0 when absent, plus the quantity, and leaves the other entries;
  after a sequence of \<^verbatim>\<open>add_item\<close> calls on one item the quantity is the one before
  plus the sum of the quantities added, which is that sum from the empty mapping.
\<close>

theorem add_item_sum:
  assumes "isinstance_int qty" and "list_all isinstance_int qtys"
  shows "map_of (add_item s (VStr name) qty) =
           (map_of s)(name \<mapsto> (case map_of s name of None \<Rightarrow> 0 | Some v \<Rightarrow> v) + int_value qty) \<and>
         get_qty (run s (map (AddItem (VStr name)) qtys)) (VStr name) =
           get_qty s (VStr name) + sum_list (map int_value qtys) \<and>
         get_qty (run [] (map (AddItem (VStr name)) qtys)) (VStr name) =
           sum_list (map int_value qtys)"
  using assms get_qty_adds[of qtys "[]" name]
  by (simp add: get_qty_adds) (simp add: add_item_def update_conv' dict_get_def get_qty_def)

theorem add_item_sum_witness:
  "isinstance_int (VInt 4) \<and> list_all isinstance_int [VInt 1, VBool True, VInt (- 3), VInt 6] \<and>
   map_of (add_item [(''apple'', 2)] (VStr ''apple'') (VInt 4)) = [''apple'' \<mapsto> 6] \<and>
   get_qty (run [(''apple'', 2)]
     (map (AddItem (VStr ''apple'')) [VInt 1, VBool True, VInt (- 3), VInt 6])) (VStr ''apple'') = 7 \<and>
   get_qty (run []
     (map (AddItem (VStr ''apple'')) [VInt 1, VBool True, VInt (- 3), VInt 6])) (VStr ''apple'') = 5"
  using add_item_sum[of "VInt 4" "[VInt 1, VBool True, VInt (- 3), VInt 6]" "[(''apple'', 2)]" "''apple''"]
  by (simp add: get_qty_def dict_get_def)

text \<open>
  C10: with a text item and an integer quantity, \<^verbatim>\<open>add_item\<close> leaves the item present,
  holding the sum also when the sum is 0 or less; and no call other than
  \<^verbatim>\<open>remove_item\<close> takes a key out of the mapping.
\<close>

theorem add_item_keeps:
  "(isinstance_int qty \<longrightarrow>
      map_of (add_item s (VStr name) qty) name =
        Some ((case map_of s name of None \<Rightarrow> 0 | Some v \<Rightarrow> v) + int_value qty)) \<and>
   (\<forall>c. (\<forall>item q. c \<noteq> RemoveItem item q) \<longrightarrow>
      set (map fst s) \<subseteq> set (map fst (fst (step s c))))"
proof -
  have "set (map fst s) \<subseteq> set (map fst (fst (step s c)))" if "\<forall>item q. c \<noteq> RemoveItem item q" for c
    using that keys_add_item by (cases c) auto
  then show ?thesis
    by (simp add: add_item_def update_conv' dict_get_def)
qed

theorem add_item_keeps_witness:
  "isinstance_int (VInt (- 5)) \<and>
   map_of (add_item [(''apple'', 1), (''pear'', 2)] (VStr ''apple'') (VInt (- 5))) ''apple'' = Some (- 4) \<and>
   (\<forall>item q. AddItem (VStr ''apple'') (VInt (- 5)) \<noteq> RemoveItem item q) \<and>
   set (map fst [(''apple'', 1 :: int), (''pear'', 2)]) \<subseteq>
     set (map fst (fst (step [(''apple'', 1), (''pear'', 2)] (AddItem (VStr ''apple'') (VInt (- 5))))))"
  using add_item_keeps[of "VInt (- 5)" "[(''apple'', 1), (''pear'', 2)]" "''apple''"]
  by (simp add: add_item_def dict_get_def)

section \<open>\<^verbatim>\<open>check_low_items\<close>\<close>

text \<open>
  C6: with an integer threshold, \<^verbatim>\<open>check_low_items\<close> returns the keys of the mapping
  whose stored quantity is strictly less than the threshold, in the order of the
  mapping; an item stored with the threshold itself is not among them. A threshold that
  is not an integer gives the empty list, and the mapping is the same afterwards.
\<close>

theorem check_low_items_exact:
  "(isinstance_int threshold \<and> distinct (map fst s) \<longrightarrow>
      check_low_items s threshold =
        filter (\<lambda>item. \<exists>qty. map_of s item = Some qty \<and> qty < int_value threshold) (map fst s) \<and>
      subseq (check_low_items s threshold) (map fst s) \<and>
      (\<forall>item. map_of s item = Some (int_value threshold) \<longrightarrow>
         item \<notin> set (check_low_items s threshold))) \<and>
   (\<not> isinstance_int threshold \<longrightarrow> step s (CheckLowItems threshold) = (s, RList [])) \<and>
   fst (step s (CheckLowItems threshold)) = s"
proof -
  let ?low = "\<lambda>item. \<exists>qty. map_of s item = Some qty \<and> qty < int_value threshold"
  have eq: "check_low_items s threshold = filter ?low (map fst s)"
    if "isinstance_int threshold" "distinct (map fst s)"
    using that filter_lookup[of s "\<lambda>v. v < int_value threshold"] by (simp add: check_low_items_def)
  have excl: "item \<notin> set (check_low_items s threshold)"
    if "isinstance_int threshold" "distinct (map fst s)" "map_of s item = Some (int_value threshold)"
    for item
  proof
    assume "item \<in> set (check_low_items s threshold)"
    then have "?low item"
      unfolding eq[OF that(1,2)] by (rule in_filterD)
    then show False
      using that(3) by simp
  qed
  have sub: "subseq (check_low_items s threshold) (map fst s)"
    if "isinstance_int threshold" "distinct (map fst s)"
    using that by (simp add: eq)
  have bad: "step s (CheckLowItems threshold) = (s, RList [])" if "\<not> isinstance_int threshold"
    using that by (simp add: check_low_items_def)
  show ?thesis
    using eq excl sub bad by simp
qed

theorem check_low_items_exact_witness:
  "isinstance_int (VInt 5) \<and>
   distinct (map fst [(''apple'', 7 :: int), (''banana'', 2), (''cherry'', 5), (''pear'', 0)]) \<and>
   check_low_items [(''apple'', 7), (''banana'', 2), (''cherry'', 5), (''pear'', 0)] (VInt 5) =
     [''banana'', ''pear''] \<and>
   map_of [(''apple'', 7), (''banana'', 2), (''cherry'', 5), (''pear'', 0)] ''cherry'' =
     Some (int_value (VInt 5)) \<and>
   ''cherry'' \<notin> set (check_low_items
     [(''apple'', 7), (''banana'', 2), (''cherry'', 5), (''pear'', 0)] (VInt 5)) \<and>
   \<not> isinstance_int (VStr ''5'') \<and>
   step [(''apple'', 7), (''banana'', 2)] (CheckLowItems (VStr ''5'')) =
     ([(''apple'', 7), (''banana'', 2)], RList [])"
  using check_low_items_exact[of "VInt 5"
      "[(''apple'', 7), (''banana'', 2), (''cherry'', 5), (''pear'', 0)]"]
    check_low_items_exact[of "VStr ''5''" "[(''apple'', 7), (''banana'', 2)]"]
  by simp

section \<open>Arguments of the wrong type\<close>

text \<open>
  C8: a call of \<^verbatim>\<open>add_item\<close> or \<^verbatim>\<open>remove_item\<close> with an item that is not text or a
  quantity that is not an integer, of \<^verbatim>\<open>get_qty\<close> with an item that is not text, or of
  \<^verbatim>\<open>check_low_items\<close> with a threshold that is not an integer returns with the mapping
  as it was; the caller gets \<^verbatim>\<open>None\<close>, 0 or the empty list, and no exception.
\<close>

theorem wrong_type_noop:
  "(\<not> isinstance_str item \<or> \<not> isinstance_int qty \<longrightarrow>
      step s (AddItem item qty) = (s, RNone) \<and> step s (RemoveItem item qty) = (s, RNone)) \<and>
   (\<not> isinstance_str item \<longrightarrow> step s (GetQty item) = (s, RInt 0)) \<and>
   (\<not> isinstance_int threshold \<longrightarrow> step s (CheckLowItems threshold) = (s, RList []))"
  by (auto simp: add_item_def remove_item_def get_qty_def check_low_items_def)

theorem wrong_type_noop_witness:
  "\<not> isinstance_str (VInt 3) \<and> \<not> isinstance_int (VFloat (Finite 2)) \<and> \<not> isinstance_int VNone \<and>
   step [(''apple'', 7)] (AddItem (VInt 3) (VFloat (Finite 2))) = ([(''apple'', 7)], RNone) \<and>
   step [(''apple'', 7)] (RemoveItem (VInt 3) (VFloat (Finite 2))) = ([(''apple'', 7)], RNone) \<and>
   step [(''apple'', 7)] (AddItem (VStr ''apple'') (VStr ''1'')) = ([(''apple'', 7)], RNone) \<and>
   step [(''apple'', 7)] (RemoveItem (VStr ''apple'') (VStr ''1'')) = ([(''apple'', 7)], RNone) \<and>
   step [(''apple'', 7)] (GetQty (VInt 3)) = ([(''apple'', 7)], RInt 0) \<and>
   step [(''apple'', 7)] (CheckLowItems VNone) = ([(''apple'', 7)], RList [])"
  using wrong_type_noop[of "VInt 3" "VFloat (Finite 2)" "[(''apple'', 7)]" VNone]
    wrong_type_noop[of "VStr ''apple''" "VStr ''1''" "[(''apple'', 7)]" VNone]
  by simp

section \<open>\<^verbatim>\<open>save_data\<close> and \<^verbatim>\<open>load_data\<close>\<close>

lemma dict_of_members_append:
  "distinct (map fst (acc @ ms)) \<Longrightarrow> foldl (\<lambda>d (k, v). AList.update k v d) acc ms = acc @ ms"
proof (induction ms arbitrary: acc)
  case Nil
  then show ?case by simp
next
  case (Cons m ms)
  obtain k v where m: "m = (k, v)" by (cases m)
  from Cons.prems m have "k \<notin> fst ` set acc" by auto
  then have "AList.update k v acc = acc @ [(k, v)]" by (rule update_append_new)
  moreover from Cons.prems m have "distinct (map fst ((acc @ [(k, v)]) @ ms))" by simp
  ultimately show ?case using Cons.IH[of "acc @ [(k, v)]"] m by simp
qed

lemma dict_of_members_distinct: "distinct (map fst ms) \<Longrightarrow> dict_of_members ms = ms"
  using dict_of_members_append[of "[]" ms] by (simp add: dict_of_members_def)

lemma comprehension_ints:
  "distinct (map fst (acc @ d)) \<Longrightarrow>
   comprehension acc (map (\<lambda>(k, v). (k, JInt v)) d) = Inr (acc @ d)"
proof (induction d arbitrary: acc)
  case Nil
  then show ?case by simp
next
  case (Cons e d)
  obtain k v where e: "e = (k, v)" by (cases e)
  from Cons.prems e have "k \<notin> fst ` set acc" by auto
  then have "AList.update k v acc = acc @ [(k, v)]" by (rule update_append_new)
  moreover from Cons.prems e have "distinct (map fst ((acc @ [(k, v)]) @ d))" by simp
  ultimately show ?case using Cons.IH[of "acc @ [(k, v)]"] e by simp
qed

lemma map_fst_dump: "map fst (map (\<lambda>(k, v). (k, JInt v)) d) = map fst d"
  by (induction d) auto

lemma demo_world_sel:
  "stock_data demo_world = [(''apple'', 7), (''banana'', 2), (''pear'', 0)]"
  "locked demo_world name = (name = ''locked.json'')"
  "files demo_world ''missing.json'' = None"
  "files demo_world ''bad.json'' = Some Malformed"
  "files demo_world ''list.json'' = Some (Doc (JArray [JInt 1, JInt 2]))"
  "files demo_world ''null.json'' = Some (Doc (JObject [(''apple'', JInt 7), (''pear'', JNull)]))"
  by (simp_all add: demo_world_def)

text \<open>
  C3: when the keys of the mapping are unique, as those of a dict are, and the write
  succeeds, \<^verbatim>\<open>load_data\<close> after \<^verbatim>\<open>save_data\<close> on the same file returns the mapping
  of the time of the save: the same keys, the same integers, in the same order.
\<close>

theorem save_load_roundtrip:
  assumes "distinct (map fst (stock_data w))" and "\<not> locked w file_name"
  shows "fst (load_data (save_data w file_name) file_name) = Inr (stock_data w)"
proof -
  let ?ms = "map (\<lambda>(k, v). (k, JInt v)) (stock_data w)"
  have "distinct (map fst ?ms)"
    using assms(1) by (simp only: map_fst_dump)
  then have "dict_of_members ?ms = ?ms"
    by (rule dict_of_members_distinct)
  moreover have "comprehension [] ?ms = Inr (stock_data w)"
    using comprehension_ints[of "[]" "stock_data w"] assms(1) by simp
  ultimately show ?thesis
    using assms(2) by (simp add: load_data_def save_data_def json_dump_def)
qed

theorem save_load_roundtrip_witness:
  "distinct (map fst (stock_data demo_world)) \<and> \<not> locked demo_world ''inventory.json'' \<and>
   fst (load_data (save_data demo_world ''inventory.json'') ''inventory.json'') =
     Inr [(''apple'', 7), (''banana'', 2), (''pear'', 0)]"
  using save_load_roundtrip[of demo_world "''inventory.json''"]
  by (simp add: demo_world_sel)

text \<open>
  C7: \<^verbatim>\<open>load_data\<close> returns the empty mapping when the file does not exist, when the
  file cannot be decoded as JSON, and when its document is not an object; and whatever
  the file holds, the process state, the live mapping in it, is the same afterwards.
\<close>

theorem load_data_empty:
  "(files w file_name = None \<longrightarrow> fst (load_data w file_name) = Inr []) \<and>
   (\<not> locked w file_name \<and> files w file_name = Some Malformed \<longrightarrow>
      fst (load_data w file_name) = Inr []) \<and>
   (\<forall>j. \<not> locked w file_name \<and> files w file_name = Some (Doc j) \<and> (\<forall>ms. j \<noteq> JObject ms) \<longrightarrow>
      fst (load_data w file_name) = Inr []) \<and>
   snd (load_data w file_name) = w"
  by (auto simp: load_data_def split: option.splits fcontent.splits json.splits sum.splits error.splits)

theorem load_data_empty_witness:
  "files demo_world ''missing.json'' = None \<and>
   fst (load_data demo_world ''missing.json'') = Inr [] \<and>
   \<not> locked demo_world ''bad.json'' \<and> files demo_world ''bad.json'' = Some Malformed \<and>
   fst (load_data demo_world ''bad.json'') = Inr [] \<and>
   \<not> locked demo_world ''list.json'' \<and>
   files demo_world ''list.json'' = Some (Doc (JArray [JInt 1, JInt 2])) \<and>
   (\<forall>ms. JArray [JInt 1, JInt 2] \<noteq> JObject ms) \<and>
   fst (load_data demo_world ''list.json'') = Inr [] \<and>
   snd (load_data demo_world ''list.json'') = demo_world"
  using load_data_empty[of demo_world "''missing.json''"]
    load_data_empty[of demo_world "''bad.json''"]
    load_data_empty[of demo_world "''list.json''"]
  by (simp add: demo_world_sel)

text \<open>
  What \<^verbatim>\<open>int(v)\<close> makes of the values of a loaded object: a float is truncated
  towards zero, a numeric string is parsed, and a string that is no number raises the
  \<^verbatim>\<open>ValueError\<close> that \<^verbatim>\<open>load_data\<close> catches.
\<close>

lemma py_int_float: "py_int (JFloat (Finite (7 / 2))) = Inr 3 \<and> py_int (JFloat (Finite (- 7 / 2))) = Inr (- 3)"
  by code_simp

lemma py_int_string: "py_int (JString '' 12 '') = Inr 12 \<and> py_int (JString ''-1_000'') = Inr (- 1000)"
  by (simp add: int_of_str_def strip_def is_space_def unsigned_def is_digit_def digit_val_def)

lemma py_int_no_number: "py_int (JString ''abc'') = Inl ValueError"
  by (simp add: int_of_str_def strip_def is_space_def unsigned_def is_digit_def digit_val_def)

lemma load_data_no_number:
  "fst (load_data (demo_world\<lparr>files := [''s.json'' \<mapsto> Doc (JObject [(''apple'', JInt 7), (''pear'', JString ''abc'')])]\<rparr>)
     ''s.json'') = Inr []"
  by (simp add: load_data_def dict_of_members_def demo_world_sel
      int_of_str_def strip_def is_space_def unsigned_def is_digit_def digit_val_def)

text \<open>
  C9, at a file holding \<^verbatim>\<open>{"apple": 7, "pear": null}\<close>: \<^verbatim>\<open>int(None)\<close> raises
  \<^verbatim>\<open>TypeError\<close>, which no handler of \<^verbatim>\<open>load_data\<close> catches, so the call does not
  return the empty mapping: the exception reaches the caller.
\<close>

theorem load_data_null_raises:
  "fst (load_data demo_world ''null.json'') = Inl TypeError"
  by (simp add: load_data_def dict_of_members_def demo_world_sel)

end
